theory Spec2Isabelle
  imports Main "HOL-Library.Word"
begin

section \<open>The Azure blob adapter of go-datastore\<close>

text \<open>
  The file \<^verbatim>\<open>azure/azure.go\<close> holds several revisions of package \<^verbatim>\<open>azure\<close>. Two of
  them are complete Go: the revision of lines 171-360, which translates the service's
  error codes, and the draft of lines 378-509, which forwards the client's results as
  they come. The first is embedded under the source's names, the draft under the same
  names with the suffix \<open>_draft\<close>. (Lines 18-153 do not type-check and are not embedded.)

  Every adapter method is one call to the blob client followed by a case analysis of
  the error it returned. A method is therefore a function from the state of the blob
  service to a result and the next state of the service.
\<close>

subsection \<open>Errors\<close>

type_synonym bytes = "8 word list"

text \<open>\<^verbatim>\<open>azblob.ServiceCodeType\<close> is a string type; the three codes used below are
  constants of the client library.\<close>

type_synonym ServiceCodeType = string

definition ServiceCodeBlobNotFound :: ServiceCodeType where
  "ServiceCodeBlobNotFound = ''BlobNotFound''"


definition ServiceCodeContainerNotFound :: ServiceCodeType where
  "ServiceCodeContainerNotFound = ''ContainerNotFound''"

text \<open>
  A non-nil Go \<^verbatim>\<open>error\<close>: a value implementing \<^verbatim>\<open>azblob.StorageError\<close> (only its
  \<^verbatim>\<open>ServiceCode()\<close> is observed), the datastore's own \<^verbatim>\<open>ds.ErrNotFound\<close>, any other
  error value, or an error wrapping another one (\<^verbatim>\<open>Unwrap\<close>). The Go interface value
  that may be nil is an \<open>error option\<close>.
\<close>

datatype error =
    StorageError ServiceCodeType
  | ErrNotFound
  | ErrorString string
  | Wrapped string error

text \<open>\<^verbatim>\<open>errors.As(err, &serr)\<close> with \<^verbatim>\<open>serr\<close> of type \<^verbatim>\<open>azblob.StorageError\<close>: the
  first error of the chain that is a storage error.\<close>

fun errors_As :: "error \<Rightarrow> ServiceCodeType option" where
  "errors_As (StorageError c) = Some c"
| "errors_As ErrNotFound = None"
| "errors_As (ErrorString m) = None"
| "errors_As (Wrapped m e) = errors_As e"

definition isError :: "error option \<Rightarrow> ServiceCodeType \<Rightarrow> bool" where
  "isError err e =
     (case err of
        None \<Rightarrow> False
      | Some x \<Rightarrow> (case errors_As x of Some c \<Rightarrow> c = e | None \<Rightarrow> False))"

subsection \<open>The blob service\<close>

text \<open>
  The client library and the service behind it are not part of the repository. The
  theory fixes the contract the adapter is written against: an account holds
  containers, a container maps blob names to contents, and a request is either
  refused with an error the service chooses (\<open>faults\<close>) or served from the contents.
  A call returns an error or a response, never both (the library returns a nil
  response with every error). The body of a served download is a stream, and its
  transfer may break after some of its bytes (\<open>transfer_breaks\<close>). \<open>calls\<close> records
  the requests issued, oldest first.
\<close>

type_synonym Key = string

record ContainerURL =
  url :: string
  credential :: "string \<times> string"

record BlockBlobURL =
  container :: ContainerURL
  blob_name :: string

datatype request =
    ContainerCreate ContainerURL
  | BlobUpload BlockBlobURL bytes
  | BlobDownload BlockBlobURL "64 word" "64 word"
  | BlobGetProperties BlockBlobURL
  | BlobDelete BlockBlobURL

record service =
  containers :: "string \<rightharpoonup> (string \<rightharpoonup> bytes)"
  faults :: "request \<Rightarrow> error option"
  transfer_breaks :: "request \<Rightarrow> nat option"
  calls :: "request list"

text \<open>The response of a download: the bytes of its body and, when the transfer breaks,
  the number of bytes that arrive before it does.\<close>

record DownloadResponse =
  Body :: bytes
  Body_breaks :: "nat option"

text \<open>\<^verbatim>\<open>b.ReadFrom(reader)\<close> on the body of a response: the bytes that reach the buffer
  and the error of the read, nil when the body was read to its end.\<close>

definition ReadFrom :: "DownloadResponse \<Rightarrow> bytes \<times> error option" where
  "ReadFrom resp =
     (case Body_breaks resp of
        None \<Rightarrow> (Body resp, None)
      | Some n \<Rightarrow> (take n (Body resp), Some (ErrorString ''unexpected EOF'')))"

record BlobGetPropertiesResponse =
  ContentLength :: "64 word"

definition issue :: "request \<Rightarrow> service \<Rightarrow> service" where
  "issue r s = s\<lparr>calls := calls s @ [r]\<rparr>"

text \<open>The content of a blob as the service sees it, or the storage error for a
  missing container or blob.\<close>

definition lookup_blob :: "service \<Rightarrow> BlockBlobURL \<Rightarrow> error + bytes" where
  "lookup_blob s b =
     (case containers s (url (container b)) of
        None \<Rightarrow> Inl (StorageError ServiceCodeContainerNotFound)
      | Some m \<Rightarrow>
          (case m (blob_name b) of
             None \<Rightarrow> Inl (StorageError ServiceCodeBlobNotFound)
           | Some v \<Rightarrow> Inr v))"


definition Upload :: "BlockBlobURL \<Rightarrow> bytes \<Rightarrow> service \<Rightarrow> (error + unit) \<times> service" where
  "Upload b v s =
     (case faults s (BlobUpload b v) of
        Some e \<Rightarrow> (Inl e, issue (BlobUpload b v) s)
      | None \<Rightarrow>
          (case containers s (url (container b)) of
             None \<Rightarrow> (Inl (StorageError ServiceCodeContainerNotFound),
                      issue (BlobUpload b v) s)
           | Some m \<Rightarrow> (Inr (),
                        issue (BlobUpload b v)
                          (s\<lparr>containers :=
                               (containers s)(url (container b) \<mapsto> m(blob_name b \<mapsto> v))\<rparr>))))"

text \<open>\<^verbatim>\<open>Download(ctx, offset, count, ...)\<close>: the bytes from \<open>offset\<close> on, \<open>count\<close> of
  them, where a count of 0 (\<^verbatim>\<open>azblob.CountToEnd\<close>) asks for all that remain.\<close>

definition Download ::
  "BlockBlobURL \<Rightarrow> 64 word \<Rightarrow> 64 word \<Rightarrow> service \<Rightarrow> (error + DownloadResponse) \<times> service" where
  "Download b offset count s =
     (case faults s (BlobDownload b offset count) of
        Some e \<Rightarrow> (Inl e, issue (BlobDownload b offset count) s)
      | None \<Rightarrow>
          (case lookup_blob s b of
             Inl e \<Rightarrow> (Inl e, issue (BlobDownload b offset count) s)
           | Inr v \<Rightarrow>
               (Inr \<lparr>Body = (if count = 0 then drop (unat offset) v
                             else take (unat count) (drop (unat offset) v)),
                     Body_breaks = transfer_breaks s (BlobDownload b offset count)\<rparr>,
                issue (BlobDownload b offset count) s)))"

definition GetProperties ::
  "BlockBlobURL \<Rightarrow> service \<Rightarrow> (error + BlobGetPropertiesResponse) \<times> service" where
  "GetProperties b s =
     (case faults s (BlobGetProperties b) of
        Some e \<Rightarrow> (Inl e, issue (BlobGetProperties b) s)
      | None \<Rightarrow>
          (case lookup_blob s b of
             Inl e \<Rightarrow> (Inl e, issue (BlobGetProperties b) s)
           | Inr v \<Rightarrow> (Inr \<lparr>ContentLength = of_nat (length v)\<rparr>,
                       issue (BlobGetProperties b) s)))"

definition DeleteBlob :: "BlockBlobURL \<Rightarrow> service \<Rightarrow> (error + unit) \<times> service" where
  "DeleteBlob b s =
     (case faults s (BlobDelete b) of
        Some e \<Rightarrow> (Inl e, issue (BlobDelete b) s)
      | None \<Rightarrow>
          (case containers s (url (container b)) of
             None \<Rightarrow> (Inl (StorageError ServiceCodeContainerNotFound),
                      issue (BlobDelete b) s)
           | Some m \<Rightarrow>
               (case m (blob_name b) of
                  None \<Rightarrow> (Inl (StorageError ServiceCodeBlobNotFound),
                           issue (BlobDelete b) s)
                | Some v \<Rightarrow> (Inr (),
                             issue (BlobDelete b)
                               (s\<lparr>containers :=
                                    (containers s)(url (container b) \<mapsto>
                                       m(blob_name b := None))\<rparr>)))))"

text \<open>The Go pair \<^verbatim>\<open>(resp, err)\<close> read off a reply: the error, nil on success.\<close>

definition err_of :: "error + 'a \<Rightarrow> error option" where
  "err_of r = (case r of Inl e \<Rightarrow> Some e | Inr x \<Rightarrow> None)"

subsection \<open>The adapter (lines 171-360)\<close>

record datastore =
  containerUrl :: ContainerURL

definition keyUrl :: "datastore \<Rightarrow> Key \<Rightarrow> BlockBlobURL" where
  "keyUrl d key = \<lparr>container = containerUrl d, blob_name = key\<rparr>"

definition Put :: "datastore \<Rightarrow> Key \<Rightarrow> bytes \<Rightarrow> service \<Rightarrow> error option \<times> service" where
  "Put d key v s =
     (let blob = keyUrl d key;
          (put, s') = Upload blob v s
      in (err_of put, s'))"

text \<open>\<^verbatim>\<open>Get\<close> asks for the blob from offset 0 with count 0 and copies the body into a
  buffer. The source drops the error of that copy and returns what the buffer holds
  with a nil error.\<close>

definition Get :: "datastore \<Rightarrow> Key \<Rightarrow> service \<Rightarrow> (bytes option \<times> error option) \<times> service" where
  "Get d key s =
     (let blob = keyUrl d key;
          (get, s') = Download blob 0 0 s
      in case get of
           Inl err \<Rightarrow>
             (if isError (Some err) ServiceCodeBlobNotFound
              then ((None, Some ErrNotFound), s')
              else ((None, Some err), s'))
         | Inr resp \<Rightarrow>
             (case ReadFrom resp of
                (b, read_err) \<Rightarrow> ((Some b, None), s')))"


text \<open>Go's \<^verbatim>\<open>int\<close> is taken at 64 bits, so \<^verbatim>\<open>int(prop.ContentLength())\<close> converts an
  \<^verbatim>\<open>int64\<close> to a type of the same width.\<close>

definition GetSize :: "datastore \<Rightarrow> Key \<Rightarrow> service \<Rightarrow> (64 word \<times> error option) \<times> service" where
  "GetSize d key s =
     (let blob = keyUrl d key;
          (prop, s') = GetProperties blob s
      in case prop of
           Inl err \<Rightarrow>
             (if isError (Some err) ServiceCodeBlobNotFound
              then ((- 1, Some ErrNotFound), s')
              else ((0, Some err), s'))
         | Inr resp \<Rightarrow> ((scast (ContentLength resp), None), s'))"

definition Delete :: "datastore \<Rightarrow> Key \<Rightarrow> service \<Rightarrow> error option \<times> service" where
  "Delete d key s =
     (let blob = keyUrl d key;
          (del, s') = DeleteBlob blob s;
          err = err_of del
      in if \<not> isError err ServiceCodeBlobNotFound then (err, s') else (None, s'))"

definition DiskUsage :: "datastore \<Rightarrow> service \<Rightarrow> (64 word \<times> error option) \<times> service" where
  "DiskUsage d s = ((100, None), s)"

text \<open>
  \<^verbatim>\<open>NewDatastore\<close>. \<^verbatim>\<open>url.Parse\<close> and \<^verbatim>\<open>azblob.NewSharedKeyCredential\<close> are library
  functions and are parameters here. The error of \<^verbatim>\<open>url.Parse\<close> is discarded by the
  source and the pointer it returned is dereferenced after the credential check, which
  panics when the parse failed.
\<close>

datatype 'a outcome = Returned 'a | Panicked


subsection \<open>Query (lines 303-346)\<close>

text \<open>
  \<^verbatim>\<open>azblob.Marker\<close> is a struct around a string pointer; \<^verbatim>\<open>NotDone\<close> holds of the nil
  pointer and of every non-empty continuation token. In a listed item the content
  length is a pointer, which the source dereferences.
\<close>

type_synonym Marker = "string option"

definition NotDone :: "Marker \<Rightarrow> bool" where
  "NotDone m = (case m of None \<Rightarrow> True | Some v \<Rightarrow> v \<noteq> [])"

record BlobItem =
  Name :: string
  Properties_ContentLength :: "64 word option"

record ListBlobsFlatSegmentResponse =
  Segment_BlobItems :: "BlobItem list"
  NextMarker :: Marker

record query_Query =
  KeysOnly :: bool

record query_Entry =
  Key :: string
  Value :: "bytes option"
  Size :: "64 word"

record query_Result =
  Entry :: query_Entry
  Error :: "error option"

text \<open>
  \<^verbatim>\<open>Query\<close> returns at once; the entries are produced by a goroutine that lists the
  container page by page. What that goroutine does, in program order, is a list of
  actions: a send on the results channel, the launch of a fetch task (\<^verbatim>\<open>wg.Add(1)\<close>
  and the \<^verbatim>\<open>go\<close> statement, with the \<^verbatim>\<open>result\<close> and \<^verbatim>\<open>key\<close> the closure captures),
  the log call, \<^verbatim>\<open>close(results)\<close>, \<^verbatim>\<open>wg.Wait()\<close>, and the dereference of a nil pointer,
  which ends the goroutine and the process.
\<close>

datatype action =
    Send query_Result
  | Go_fetch query_Result Key
  | Log_Errorf
  | Close_results
  | Wg_Wait
  | Nil_dereference

text \<open>The inner loop over the items of one page; the flag tells whether the loop
  ran to its end. \<^verbatim>\<open>ds.NewKey\<close> belongs to the datastore package and is a parameter.\<close>

fun range_BlobItems :: "(string \<Rightarrow> Key) \<Rightarrow> query_Query \<Rightarrow> BlobItem list \<Rightarrow> action list \<times> bool" where
  "range_BlobItems NewKey q [] = ([], True)"
| "range_BlobItems NewKey q (blob # rest) =
     (case Properties_ContentLength blob of
        None \<Rightarrow> ([Nil_dereference], False)
      | Some n \<Rightarrow>
          (let key = NewKey (Name blob);
               result = \<lparr>Entry = \<lparr>Key = key, Value = None, Size = scast n\<rparr>, Error = None\<rparr>;
               (acts, ok) = range_BlobItems NewKey q rest
           in ((if \<not> KeysOnly q then Go_fetch result key else Send result) # acts, ok)))"

text \<open>
  The outer loop, \<^verbatim>\<open>for marker.NotDone()\<close>. The replies of the service to the successive
  list requests are given as a list; \<open>None\<close> means that the loop asked for a page
  beyond the replies given. After a failed list request the source logs, closes the
  channel and goes on to read \<^verbatim>\<open>list.Segment\<close> of the nil response.
\<close>

fun for_marker ::
  "(string \<Rightarrow> Key) \<Rightarrow> query_Query \<Rightarrow> Marker \<Rightarrow> (error + ListBlobsFlatSegmentResponse) list \<Rightarrow>
   action list option" where
  "for_marker NewKey q marker [] =
     (if NotDone marker then None else Some [Wg_Wait, Close_results])"
| "for_marker NewKey q marker (reply # rest) =
     (if NotDone marker then
        (case reply of
           Inl err \<Rightarrow> Some [Log_Errorf, Close_results, Nil_dereference]
         | Inr list \<Rightarrow>
             (case range_BlobItems NewKey q (Segment_BlobItems list) of
                (acts, ok) \<Rightarrow>
                  if ok then map_option ((@) acts) (for_marker NewKey q (NextMarker list) rest)
                  else Some acts))
      else Some [Wg_Wait, Close_results])"

definition Query ::
  "(string \<Rightarrow> Key) \<Rightarrow> query_Query \<Rightarrow> (error + ListBlobsFlatSegmentResponse) list \<Rightarrow>
   action list option" where
  "Query NewKey q replies = for_marker NewKey q None replies"

text \<open>The body of a fetch task: the result it sends, computed from \<^verbatim>\<open>d.Get(key)\<close>.\<close>

definition fetch :: "datastore \<Rightarrow> service \<Rightarrow> query_Result \<Rightarrow> Key \<Rightarrow> query_Result" where
  "fetch d s result key =
     (case fst (Get d key s) of
        (v, err) \<Rightarrow> \<lparr>Entry = (Entry result)\<lparr>Value := v\<rparr>, Error = err\<rparr>)"

text \<open>The results that reach the channel when every launched task runs to its send,
  listed in the order of the launches (the tasks read one and the same state of the
  service; the order in which they send is up to the scheduler).\<close>

fun delivered :: "datastore \<Rightarrow> service \<Rightarrow> action list \<Rightarrow> query_Result list" where
  "delivered d s [] = []"
| "delivered d s (Send r # acts) = r # delivered d s acts"
| "delivered d s (Go_fetch r k # acts) = fetch d s r k # delivered d s acts"
| "delivered d s (Log_Errorf # acts) = delivered d s acts"
| "delivered d s (Close_results # acts) = delivered d s acts"
| "delivered d s (Wg_Wait # acts) = delivered d s acts"
| "delivered d s (Nil_dereference # acts) = delivered d s acts"

text \<open>The items of the pages the loop reads, following the markers.\<close>

fun listed :: "Marker \<Rightarrow> (error + ListBlobsFlatSegmentResponse) list \<Rightarrow> BlobItem list" where
  "listed marker [] = []"
| "listed marker (Inl err # rest) = []"
| "listed marker (Inr list # rest) =
     (if NotDone marker then Segment_BlobItems list @ listed (NextMarker list) rest else [])"

text \<open>A listing that the loop can read to its end: every request the loop makes is
  answered with a page, every item of a page carries its content length, and the
  marker of the last page read says that the listing is done.\<close>

fun complete_listing :: "Marker \<Rightarrow> (error + ListBlobsFlatSegmentResponse) list \<Rightarrow> bool" where
  "complete_listing marker [] = (if NotDone marker then False else True)"
| "complete_listing marker (Inl err # rest) = (if NotDone marker then False else True)"
| "complete_listing marker (Inr list # rest) =
     (if NotDone marker
      then list_all (\<lambda>blob. Properties_ContentLength blob \<noteq> None) (Segment_BlobItems list) \<and>
           complete_listing (NextMarker list) rest
      else True)"

text \<open>
  The join discipline of the channel: \<open>pending\<close> counts the tasks launched since the
  last \<^verbatim>\<open>wg.Wait()\<close>, the only statement after which they are known to have finished;
  a close is joined when no task is pending.
\<close>

fun closes_joined :: "nat \<Rightarrow> action list \<Rightarrow> bool" where
  "closes_joined pending [] = True"
| "closes_joined pending (Go_fetch r k # acts) = closes_joined (Suc pending) acts"
| "closes_joined pending (Wg_Wait # acts) = closes_joined 0 acts"
| "closes_joined pending (Close_results # acts) = (pending = 0 \<and> closes_joined pending acts)"
| "closes_joined pending (Send r # acts) = closes_joined pending acts"
| "closes_joined pending (Log_Errorf # acts) = closes_joined pending acts"
| "closes_joined pending (Nil_dereference # acts) = closes_joined pending acts"

subsection \<open>The draft (lines 378-509)\<close>

text \<open>
  \<^verbatim>\<open>Get\<close> and \<^verbatim>\<open>GetSize\<close> of the draft return the client's error as it is; the
  body is read as in the later revision.
  \<^verbatim>\<open>Delete\<close> of the draft prints \<^verbatim>\<open>del.Status()\<close> before its only return statement,
  \<^verbatim>\<open>return err\<close>; the response \<^verbatim>\<open>del\<close> is nil whenever the client returned an error.
\<close>

definition Get_draft ::
  "datastore \<Rightarrow> Key \<Rightarrow> service \<Rightarrow> (bytes option \<times> error option) \<times> service" where
  "Get_draft d key s =
     (let blob = keyUrl d key;
          (get, s') = Download blob 0 0 s
      in case get of
           Inl err \<Rightarrow> ((None, Some err), s')
         | Inr resp \<Rightarrow>
             (case ReadFrom resp of
                (b, read_err) \<Rightarrow> ((Some b, None), s')))"

definition GetSize_draft ::
  "datastore \<Rightarrow> Key \<Rightarrow> service \<Rightarrow> (64 word \<times> error option) \<times> service" where
  "GetSize_draft d key s =
     (let blob = keyUrl d key;
          (prop, s') = GetProperties blob s
      in case prop of
           Inl err \<Rightarrow> ((0, Some err), s')
         | Inr resp \<Rightarrow> ((scast (ContentLength resp), None), s'))"

definition Delete_draft :: "datastore \<Rightarrow> Key \<Rightarrow> service \<Rightarrow> error option outcome \<times> service" where
  "Delete_draft d key s =
     (let blob = keyUrl d key;
          (reply, s') = DeleteBlob blob s;
          del = (case reply of Inl e \<Rightarrow> None | Inr r \<Rightarrow> Some r);
          err = err_of reply
      in case del of
           None \<Rightarrow> (Panicked, s')
         | Some r \<Rightarrow> (Returned err, s'))"

subsection \<open>A container with one blob\<close>

definition curl0 :: ContainerURL where
  "curl0 = \<lparr>url = ''https://acct.blob.core.windows.net/c'', credential = (''acct'', ''a2V5'')\<rparr>"

definition d0 :: datastore where
  "d0 = \<lparr>containerUrl = curl0\<rparr>"

definition s0 :: service where
  "s0 = \<lparr>containers = [''https://acct.blob.core.windows.net/c'' \<mapsto> [''/a'' \<mapsto> [104, 105]]],
         faults = (\<lambda>r. None),
         transfer_breaks = (\<lambda>r. None),
         calls = []\<rparr>"


text \<open>Two blobs, of which the second cannot be downloaded.\<close>

definition s_partial :: service where
  "s_partial =
     \<lparr>containers = [''https://acct.blob.core.windows.net/c'' \<mapsto>
                      [''/a'' \<mapsto> [104, 105], ''/b'' \<mapsto> [119]]],
      faults = (\<lambda>r. if r = BlobDownload (keyUrl d0 ''/b'') 0 0
                     then Some (ErrorString ''timeout'') else None),
      transfer_breaks = (\<lambda>r. None),
      calls = []\<rparr>"

text \<open>The same two blobs, every request served, and a download of the first whose
  body breaks after one byte.\<close>

definition s_broken :: service where
  "s_broken =
     \<lparr>containers = [''https://acct.blob.core.windows.net/c'' \<mapsto>
                      [''/a'' \<mapsto> [104, 105], ''/b'' \<mapsto> [119]]],
      faults = (\<lambda>r. None),
      transfer_breaks = (\<lambda>r. if r = BlobDownload (keyUrl d0 ''/a'') 0 0 then Some 1 else None),
      calls = []\<rparr>"

text \<open>A listing of the two blobs in two pages, a query that asks for the values, and
  the same listing with a second list request that fails.\<close>

definition page_a :: ListBlobsFlatSegmentResponse where
  "page_a = \<lparr>Segment_BlobItems = [\<lparr>Name = ''/a'', Properties_ContentLength = Some 2\<rparr>],
             NextMarker = Some ''2!4!L2I-''\<rparr>"

definition page_b :: ListBlobsFlatSegmentResponse where
  "page_b = \<lparr>Segment_BlobItems = [\<lparr>Name = ''/b'', Properties_ContentLength = Some 1\<rparr>],
             NextMarker = Some []\<rparr>"

definition q_values :: query_Query where
  "q_values = \<lparr>KeysOnly = False\<rparr>"

definition result_a :: query_Result where
  "result_a = \<lparr>Entry = \<lparr>Key = ''/a'', Value = None, Size = 2\<rparr>, Error = None\<rparr>"

definition result_b :: query_Result where
  "result_b = \<lparr>Entry = \<lparr>Key = ''/b'', Value = None, Size = 1\<rparr>, Error = None\<rparr>"

section \<open>Properties\<close>

subsection \<open>What a request leaves behind\<close>

lemma issue_simps [simp]:
  "calls (issue r s) = calls s @ [r]"
  "containers (issue r s) = containers s"
  "faults (issue r s) = faults s"
  "transfer_breaks (issue r s) = transfer_breaks s"
  by (simp_all add: issue_def)

lemma GetProperties_state:
  "calls (snd (GetProperties b s)) = calls s @ [BlobGetProperties b]"
  "containers (snd (GetProperties b s)) = containers s"
  by (simp_all add: GetProperties_def split: option.splits sum.splits)

lemma Download_state:
  "calls (snd (Download b off cnt s)) = calls s @ [BlobDownload b off cnt]"
  "containers (snd (Download b off cnt s)) = containers s"
  by (simp_all add: Download_def split: option.splits sum.splits)

lemma GetProperties_served:
  "faults s (BlobGetProperties b) = None \<Longrightarrow> lookup_blob s b = Inr v \<Longrightarrow>
   fst (GetProperties b s) = Inr \<lparr>ContentLength = of_nat (length v)\<rparr>"
  by (simp add: GetProperties_def)

lemma Download_whole:
  "faults s (BlobDownload b 0 0) = None \<Longrightarrow> lookup_blob s b = Inr v \<Longrightarrow>
   fst (Download b 0 0 s) =
     Inr \<lparr>Body = v, Body_breaks = transfer_breaks s (BlobDownload b 0 0)\<rparr>"
  by (simp add: Download_def)

lemma Upload_state:
  "faults (snd (Upload b v s)) = faults s"
  "transfer_breaks (snd (Upload b v s)) = transfer_breaks s"
  "calls (snd (Upload b v s)) = calls s @ [BlobUpload b v]"
  by (simp_all add: Upload_def split: option.splits)

subsection \<open>Has\<close>



subsection \<open>GetSize\<close>

text \<open>
  C7. For every key, \<^verbatim>\<open>GetSize\<close> issues one request, the metadata request for the key's
  blob, and leaves the contents of the service as they were. When the request succeeds
  it returns the content length of the response with a nil error; for a blob that is
  in the container and a request that is served, that is the length of the blob. When
  the request fails with blob-not-found, the error returned is \<^verbatim>\<open>ds.ErrNotFound\<close>.
\<close>

theorem GetSize_content_length:
  "calls (snd (GetSize d key s)) = calls s @ [BlobGetProperties (keyUrl d key)] \<and>
   containers (snd (GetSize d key s)) = containers s \<and>
   (fst (GetProperties (keyUrl d key) s) = Inr p \<longrightarrow>
      fst (GetSize d key s) = (ContentLength p, None)) \<and>
   (faults s (BlobGetProperties (keyUrl d key)) = None \<longrightarrow>
    lookup_blob s (keyUrl d key) = Inr v \<longrightarrow>
      fst (GetSize d key s) = (of_nat (length v), None)) \<and>
   (isError (err_of (fst (GetProperties (keyUrl d key) s))) ServiceCodeBlobNotFound \<longrightarrow>
      snd (fst (GetSize d key s)) = Some ErrNotFound)"
proof -
  obtain r s' where g: "GetProperties (keyUrl d key) s = (r, s')"
    by (cases "GetProperties (keyUrl d key) s")
  have st: "calls s' = calls s @ [BlobGetProperties (keyUrl d key)]" "containers s' = containers s"
    using GetProperties_state [of "keyUrl d key" s] g by simp_all
  have served: "faults s (BlobGetProperties (keyUrl d key)) = None \<Longrightarrow>
      lookup_blob s (keyUrl d key) = Inr v \<Longrightarrow> r = Inr \<lparr>ContentLength = of_nat (length v)\<rparr>"
    using GetProperties_served [of s "keyUrl d key" v] g by simp
  show ?thesis
    using g st served by (cases r) (auto simp add: GetSize_def err_of_def isError_def)
qed

theorem GetSize_content_length_witness:
  "fst (GetSize d0 ''/a'' s0) = (2, None) \<and>
   snd (fst (GetSize d0 ''/b'' s0)) = Some ErrNotFound \<and>
   calls (snd (GetSize d0 ''/a'' s0)) = [BlobGetProperties (keyUrl d0 ''/a'')]"
proof -
  have f: "faults s0 (BlobGetProperties (keyUrl d0 ''/a'')) = None"
    by (simp add: s0_def)
  have a: "lookup_blob s0 (keyUrl d0 ''/a'') = Inr [104, 105]"
    by (simp add: lookup_blob_def keyUrl_def d0_def curl0_def s0_def)
  have b: "isError (err_of (fst (GetProperties (keyUrl d0 ''/b'') s0))) ServiceCodeBlobNotFound"
    by (simp add: GetProperties_def lookup_blob_def keyUrl_def d0_def curl0_def s0_def
        isError_def err_of_def)
  have e: "calls s0 = []" by (simp add: s0_def)
  show ?thesis
    using GetSize_content_length [of d0 "''/a''" s0 _ "[104, 105]"]
      GetSize_content_length [of d0 "''/b''" s0] f a b e
    by simp
qed



subsection \<open>Put and Get\<close>


text \<open>An upload that fails: \<^verbatim>\<open>Put\<close> returns the error of the client unchanged.\<close>

lemma Put_refused:
  "fst (Upload (keyUrl d k) v s) = Inl e \<Longrightarrow> fst (Put d k v s) = Some e"
  by (cases "Upload (keyUrl d k) v s") (simp add: Put_def err_of_def)

text \<open>The error policy of \<^verbatim>\<open>Get\<close> in the revision of lines 242-258, and the value it
  returns once the request is served: the bytes that were read, with a nil error.\<close>

lemma Get_error_policy:
  "(fst (Download (keyUrl d key) 0 0 s) = Inl e \<longrightarrow> isError (Some e) ServiceCodeBlobNotFound \<longrightarrow>
      fst (Get d key s) = (None, Some ErrNotFound)) \<and>
   (fst (Download (keyUrl d key) 0 0 s) = Inl e \<longrightarrow> \<not> isError (Some e) ServiceCodeBlobNotFound \<longrightarrow>
      fst (Get d key s) = (None, Some e)) \<and>
   (fst (Download (keyUrl d key) 0 0 s) = Inr resp \<longrightarrow>
      fst (Get d key s) = (Some (fst (ReadFrom resp)), None))"
  by (cases "Download (keyUrl d key) 0 0 s")
    (simp add: Get_def split: sum.splits prod.splits)

lemma Get_served:
  assumes "faults s (BlobDownload (keyUrl d k) 0 0) = None"
      and "lookup_blob s (keyUrl d k) = Inr v"
  shows "fst (Get d k s) =
     (Some (case transfer_breaks s (BlobDownload (keyUrl d k) 0 0) of
              None \<Rightarrow> v | Some n \<Rightarrow> take n v), None)"
proof -
  have "fst (Download (keyUrl d k) 0 0 s) =
      Inr \<lparr>Body = v, Body_breaks = transfer_breaks s (BlobDownload (keyUrl d k) 0 0)\<rparr>"
    using assms by (rule Download_whole)
  then show ?thesis
    using Get_error_policy [of d k s _
        "\<lparr>Body = v, Body_breaks = transfer_breaks s (BlobDownload (keyUrl d k) 0 0)\<rparr>"]
    by (simp add: ReadFrom_def split: option.splits)
qed



text \<open>
  C1 (fails on the draft). The claim asks that \<^verbatim>\<open>Get\<close> and \<^verbatim>\<open>GetSize\<close> answer a
  blob-not-found error of the service with \<^verbatim>\<open>ds.ErrNotFound\<close>. For a key that is not in
  the container the service reports blob-not-found; \<^verbatim>\<open>Get\<close> of the draft (lines 438-451)
  returns that storage error itself, and so does \<^verbatim>\<open>GetSize\<close> of the draft with size 0,
  where \<^verbatim>\<open>Get\<close> and \<^verbatim>\<open>GetSize\<close> of lines 242-287 return \<^verbatim>\<open>ds.ErrNotFound\<close>.
\<close>

theorem Get_draft_not_found:
  "isError (err_of (fst (Download (keyUrl d0 ''/b'') 0 0 s0))) ServiceCodeBlobNotFound \<and>
   fst (Get_draft d0 ''/b'' s0) = (None, Some (StorageError ServiceCodeBlobNotFound)) \<and>
   fst (GetSize_draft d0 ''/b'' s0) = (0, Some (StorageError ServiceCodeBlobNotFound)) \<and>
   fst (Get d0 ''/b'' s0) = (None, Some ErrNotFound) \<and>
   fst (GetSize d0 ''/b'' s0) = (- 1, Some ErrNotFound)"
  by (simp add: Get_draft_def GetSize_draft_def Get_def GetSize_def Download_def
      GetProperties_def lookup_blob_def keyUrl_def d0_def curl0_def s0_def isError_def err_of_def)

subsection \<open>Delete\<close>

text \<open>The error policy of \<^verbatim>\<open>Delete\<close> in the revision of lines 290-300: nil on success
  and on blob-not-found, any other error unchanged.\<close>

lemma Delete_error_policy:
  "(fst (DeleteBlob (keyUrl d key) s) = Inr u \<longrightarrow> fst (Delete d key s) = None) \<and>
   (fst (DeleteBlob (keyUrl d key) s) = Inl e \<longrightarrow> isError (Some e) ServiceCodeBlobNotFound \<longrightarrow>
      fst (Delete d key s) = None) \<and>
   (fst (DeleteBlob (keyUrl d key) s) = Inl e \<longrightarrow> \<not> isError (Some e) ServiceCodeBlobNotFound \<longrightarrow>
      fst (Delete d key s) = Some e)"
  by (cases "DeleteBlob (keyUrl d key) s")
    (simp add: Delete_def err_of_def isError_def split: sum.splits)

text \<open>
  C3 (fails on the draft). The claim asks that \<^verbatim>\<open>Delete\<close> of an absent key return nil.
  For a key that is not in the container the service reports blob-not-found;
  \<^verbatim>\<open>Delete\<close> of the draft (lines 479-486) then reads the status of the nil response and
  never reaches a return of nil, where \<^verbatim>\<open>Delete\<close> of lines 290-300 returns nil.
\<close>

theorem Delete_draft_absent:
  "isError (err_of (fst (DeleteBlob (keyUrl d0 ''/b'') s0))) ServiceCodeBlobNotFound \<and>
   fst (Delete_draft d0 ''/b'' s0) = Panicked \<and>
   fst (Delete d0 ''/b'' s0) = None"
  by (simp add: Delete_draft_def Delete_def DeleteBlob_def keyUrl_def d0_def curl0_def s0_def
      isError_def err_of_def)

subsection \<open>DiskUsage\<close>

text \<open>
  C8 (fails). The claim asks for a documented sentinel or an error in place of a made-up
  byte count. \<^verbatim>\<open>DiskUsage\<close>, documented as returning the disk size used in bytes,
  returns 100 with a nil error and without a request to the service: for the container
  with its two-byte blob, and again after a blob of 1000 bytes has been stored in it.
\<close>

theorem DiskUsage_fixed:
  "fst (DiskUsage d0 s0) = (100, None) \<and>
   fst (Put d0 ''/big'' (replicate 1000 0) s0) = None \<and>
   fst (GetSize d0 ''/big'' (snd (Put d0 ''/big'' (replicate 1000 0) s0))) = (1000, None) \<and>
   DiskUsage d0 (snd (Put d0 ''/big'' (replicate 1000 0) s0)) =
     ((100, None), snd (Put d0 ''/big'' (replicate 1000 0) s0))"
  by (simp add: DiskUsage_def Put_def Upload_def GetSize_def GetProperties_def lookup_blob_def
      keyUrl_def d0_def curl0_def s0_def err_of_def Let_def)

subsection \<open>NewDatastore\<close>



subsection \<open>Query\<close>

lemma delivered_append: "delivered d s (xs @ ys) = delivered d s xs @ delivered d s ys"
  by (induction xs rule: delivered.induct) simp_all

lemma range_BlobItems_ok:
  "range_BlobItems NewKey q items = (acts, ok) \<Longrightarrow> ok = (Nil_dereference \<notin> set acts)"
proof (induction items arbitrary: acts ok)
  case Nil
  then show ?case by auto
next
  case (Cons blob rest)
  show ?case
  proof (cases "Properties_ContentLength blob")
    case None
    with Cons.prems show ?thesis by auto
  next
    case (Some n)
    obtain acts' ok' where r: "range_BlobItems NewKey q rest = (acts', ok')"
      by (cases "range_BlobItems NewKey q rest")
    from Cons.IH [OF r] Cons.prems Some r show ?thesis
      by (auto simp add: Let_def split: if_splits)
  qed
qed

lemma range_BlobItems_no_close:
  "range_BlobItems NewKey q items = (acts, ok) \<Longrightarrow>
   Close_results \<notin> set acts \<and> Wg_Wait \<notin> set acts \<and> Log_Errorf \<notin> set acts"
proof (induction items arbitrary: acts ok)
  case Nil
  then show ?case by auto
next
  case (Cons blob rest)
  show ?case
  proof (cases "Properties_ContentLength blob")
    case None
    with Cons.prems show ?thesis by auto
  next
    case (Some n)
    obtain acts' ok' where r: "range_BlobItems NewKey q rest = (acts', ok')"
      by (cases "range_BlobItems NewKey q rest")
    from Cons.IH [OF r] Cons.prems Some r show ?thesis
      by (auto simp add: Let_def split: if_splits)
  qed
qed

text \<open>Every item of a page that is read to its end launches one task, whose result
  is related to the item by any relation that holds of what a task sends.\<close>

lemma range_BlobItems_delivered:
  assumes "\<not> KeysOnly q"
      and "\<And>blob n. Properties_ContentLength blob = Some n \<Longrightarrow>
             P blob (fetch d s \<lparr>Entry = \<lparr>Key = NewKey (Name blob), Value = None, Size = scast n\<rparr>,
                                Error = None\<rparr> (NewKey (Name blob)))"
  shows "range_BlobItems NewKey q items = (acts, True) \<Longrightarrow> list_all2 P items (delivered d s acts)"
proof (induction items arbitrary: acts)
  case Nil
  then show ?case by simp
next
  case (Cons blob rest)
  show ?case
  proof (cases "Properties_ContentLength blob")
    case None
    with Cons.prems show ?thesis by simp
  next
    case (Some n)
    obtain acts' ok' where r: "range_BlobItems NewKey q rest = (acts', ok')"
      by (cases "range_BlobItems NewKey q rest")
    with Cons.prems Some have ok': "ok'" and acts:
      "acts = Go_fetch \<lparr>Entry = \<lparr>Key = NewKey (Name blob), Value = None, Size = scast n\<rparr>,
                        Error = None\<rparr> (NewKey (Name blob)) # acts'"
      using assms(1) by (simp_all add: Let_def)
    from Cons.IH [of acts'] r ok' have "list_all2 P rest (delivered d s acts')" by simp
    with acts assms(2) [OF Some] show ?thesis by simp
  qed
qed

lemma for_marker_delivered:
  assumes "\<not> KeysOnly q"
      and "\<And>blob n. Properties_ContentLength blob = Some n \<Longrightarrow>
             P blob (fetch d s \<lparr>Entry = \<lparr>Key = NewKey (Name blob), Value = None, Size = scast n\<rparr>,
                                Error = None\<rparr> (NewKey (Name blob)))"
  shows "for_marker NewKey q marker replies = Some acts \<Longrightarrow> Nil_dereference \<notin> set acts \<Longrightarrow>
         list_all2 P (listed marker replies) (delivered d s acts)"
proof (induction replies arbitrary: marker acts)
  case Nil
  then show ?case by (auto split: if_splits)
next
  case (Cons reply rest)
  show ?case
  proof (cases "NotDone marker")
    case False
    with Cons.prems show ?thesis by (cases reply) auto
  next
    case True
    show ?thesis
    proof (cases reply)
      case (Inl err)
      with True Cons.prems show ?thesis by auto
    next
      case (Inr list)
      obtain pacts ok where r: "range_BlobItems NewKey q (Segment_BlobItems list) = (pacts, ok)"
        by (cases "range_BlobItems NewKey q (Segment_BlobItems list)")
      have okeq: "ok = (Nil_dereference \<notin> set pacts)"
        using range_BlobItems_ok [OF r] .
      show ?thesis
      proof (cases ok)
        case False
        with True Inr r Cons.prems okeq show ?thesis by auto
      next
        case ok: True
        with True Inr r Cons.prems obtain tl where
          tl: "for_marker NewKey q (NextMarker list) rest = Some tl" and acts: "acts = pacts @ tl"
          by auto
        from acts Cons.prems(2) have "Nil_dereference \<notin> set tl" by simp
        from Cons.IH [OF tl this]
        have t: "list_all2 P (listed (NextMarker list) rest) (delivered d s tl)" .
        from r ok have "range_BlobItems NewKey q (Segment_BlobItems list) = (pacts, True)" by simp
        from range_BlobItems_delivered [of q P d s NewKey, OF assms(1) assms(2) this]
        have p: "list_all2 P (Segment_BlobItems list) (delivered d s pacts)" by simp
        from p t show ?thesis
          using True Inr acts by (simp add: delivered_append list_all2_appendI)
      qed
    qed
  qed
qed

lemma range_BlobItems_complete:
  "list_all (\<lambda>blob. Properties_ContentLength blob \<noteq> None) items \<Longrightarrow>
   snd (range_BlobItems NewKey q items)"
  by (induction items) (auto simp add: Let_def split: prod.splits)

text \<open>A listing that can be read to its end is read to its end: the loop returns,
  and without a panic.\<close>

lemma for_marker_complete:
  "complete_listing marker replies \<Longrightarrow>
   \<exists>acts. for_marker NewKey q marker replies = Some acts \<and> Nil_dereference \<notin> set acts"
proof (induction replies arbitrary: marker)
  case Nil
  then show ?case by (auto split: if_splits)
next
  case (Cons reply rest)
  show ?case
  proof (cases "NotDone marker")
    case False
    then show ?thesis by simp
  next
    case True
    show ?thesis
    proof (cases reply)
      case (Inl err)
      with True Cons.prems show ?thesis by simp
    next
      case (Inr list)
      obtain pacts ok where r: "range_BlobItems NewKey q (Segment_BlobItems list) = (pacts, ok)"
        by (cases "range_BlobItems NewKey q (Segment_BlobItems list)")
      from True Inr Cons.prems have
        items: "list_all (\<lambda>blob. Properties_ContentLength blob \<noteq> None) (Segment_BlobItems list)"
        and rest: "complete_listing (NextMarker list) rest"
        by simp_all
      from range_BlobItems_complete [OF items, of NewKey q] r have ok: "ok" by simp
      with range_BlobItems_ok [OF r] have nil: "Nil_dereference \<notin> set pacts" by simp
      from Cons.IH [OF rest] obtain tl where
        tl: "for_marker NewKey q (NextMarker list) rest = Some tl" "Nil_dereference \<notin> set tl"
        by blast
      from True Inr r ok tl nil show ?thesis by simp
    qed
  qed
qed

lemma fetch_result:
  "Key (Entry (fetch d s \<lparr>Entry = \<lparr>Key = k, Value = None, Size = n\<rparr>, Error = None\<rparr> k)) = k \<and>
   Size (Entry (fetch d s \<lparr>Entry = \<lparr>Key = k, Value = None, Size = n\<rparr>, Error = None\<rparr> k)) = n \<and>
   (Value (Entry (fetch d s \<lparr>Entry = \<lparr>Key = k, Value = None, Size = n\<rparr>, Error = None\<rparr> k)),
    Error (fetch d s \<lparr>Entry = \<lparr>Key = k, Value = None, Size = n\<rparr>, Error = None\<rparr> k)) =
     fst (Get d k s)"
  by (cases "fst (Get d k s)") (simp add: fetch_def)

text \<open>
  What holds of the entries. For a query that asks for the values and a listing that
  can be read to its end, the listing goroutine returns, and the results that reach
  the channel correspond one to one to the listed items. The result of an item
  carries the item's key. When the blob of that key is in the container, its download
  is served and its body arrives whole, the result carries the blob's content and a
  nil error. When the download request fails, the result carries no value and the
  error of \<^verbatim>\<open>Get\<close>, whatever happens to the other downloads.
\<close>

lemma Query_entries_complete:
  assumes "\<not> KeysOnly q"
      and "complete_listing None replies"
  shows "\<exists>acts. Query NewKey q replies = Some acts \<and> Nil_dereference \<notin> set acts \<and>
           list_all2
             (\<lambda>blob r.
                Key (Entry r) = NewKey (Name blob) \<and>
                (\<forall>v. lookup_blob s (keyUrl d (Key (Entry r))) = Inr v \<and>
                     faults s (BlobDownload (keyUrl d (Key (Entry r))) 0 0) = None \<and>
                     transfer_breaks s (BlobDownload (keyUrl d (Key (Entry r))) 0 0) = None \<longrightarrow>
                     Value (Entry r) = Some v \<and> Error r = None) \<and>
                (\<forall>e. fst (Download (keyUrl d (Key (Entry r))) 0 0 s) = Inl e \<longrightarrow>
                     Value (Entry r) = None \<and>
                     Error r =
                       Some (if isError (Some e) ServiceCodeBlobNotFound then ErrNotFound else e)))
             (listed None replies) (delivered d s acts)"
proof -
  from for_marker_complete [OF assms(2), of NewKey q] obtain acts where
    run: "for_marker NewKey q None replies = Some acts" and nil: "Nil_dereference \<notin> set acts"
    by blast
  have "list_all2
      (\<lambda>blob r.
         Key (Entry r) = NewKey (Name blob) \<and>
         (\<forall>v. lookup_blob s (keyUrl d (Key (Entry r))) = Inr v \<and>
              faults s (BlobDownload (keyUrl d (Key (Entry r))) 0 0) = None \<and>
              transfer_breaks s (BlobDownload (keyUrl d (Key (Entry r))) 0 0) = None \<longrightarrow>
              Value (Entry r) = Some v \<and> Error r = None) \<and>
         (\<forall>e. fst (Download (keyUrl d (Key (Entry r))) 0 0 s) = Inl e \<longrightarrow>
              Value (Entry r) = None \<and>
              Error r = Some (if isError (Some e) ServiceCodeBlobNotFound then ErrNotFound else e)))
      (listed None replies) (delivered d s acts)"
  proof (rule for_marker_delivered [OF assms(1) _ run nil])
    fix blob :: BlobItem and n :: "64 word"
    let ?k = "NewKey (Name blob)"
    let ?r = "fetch d s \<lparr>Entry = \<lparr>Key = ?k, Value = None, Size = scast n\<rparr>, Error = None\<rparr> ?k"
    have k: "Key (Entry ?r) = ?k" and g: "(Value (Entry ?r), Error ?r) = fst (Get d ?k s)"
      using fetch_result [of d s ?k "scast n"] by simp_all
    have served: "Value (Entry ?r) = Some v \<and> Error ?r = None"
      if "lookup_blob s (keyUrl d ?k) = Inr v" "faults s (BlobDownload (keyUrl d ?k) 0 0) = None"
         "transfer_breaks s (BlobDownload (keyUrl d ?k) 0 0) = None" for v
    proof -
      have "fst (Get d ?k s) = (Some v, None)"
        using Get_served [OF that(2) that(1)] that(3) by simp
      with g show ?thesis by simp
    qed
    have failed: "Value (Entry ?r) = None \<and>
        Error ?r = Some (if isError (Some e) ServiceCodeBlobNotFound then ErrNotFound else e)"
      if "fst (Download (keyUrl d ?k) 0 0 s) = Inl e" for e
      using that g Get_error_policy [of d ?k s e]
      by (cases "isError (Some e) ServiceCodeBlobNotFound") auto
    show "Key (Entry ?r) = ?k \<and>
        (\<forall>v. lookup_blob s (keyUrl d (Key (Entry ?r))) = Inr v \<and>
             faults s (BlobDownload (keyUrl d (Key (Entry ?r))) 0 0) = None \<and>
             transfer_breaks s (BlobDownload (keyUrl d (Key (Entry ?r))) 0 0) = None \<longrightarrow>
             Value (Entry ?r) = Some v \<and> Error ?r = None) \<and>
        (\<forall>e. fst (Download (keyUrl d (Key (Entry ?r))) 0 0 s) = Inl e \<longrightarrow>
             Value (Entry ?r) = None \<and>
             Error ?r = Some (if isError (Some e) ServiceCodeBlobNotFound then ErrNotFound else e))"
      using k served failed by simp
  qed
  with run nil show ?thesis
    by (auto simp add: Query_def)
qed

text \<open>A download that is refused: the error is in the entry of that key, and the
  entry of the other key has its value.\<close>

lemma Query_entries_example:
  "delivered d0 s_partial
     [Go_fetch result_a ''/a'', Go_fetch result_b ''/b'', Wg_Wait, Close_results] =
   [\<lparr>Entry = \<lparr>Key = ''/a'', Value = Some [104, 105], Size = 2\<rparr>, Error = None\<rparr>,
    \<lparr>Entry = \<lparr>Key = ''/b'', Value = None, Size = 1\<rparr>, Error = Some (ErrorString ''timeout'')\<rparr>]"
  by (simp add: fetch_def Get_def Download_def ReadFrom_def lookup_blob_def keyUrl_def d0_def
      curl0_def s_partial_def result_a_def result_b_def isError_def Let_def)

text \<open>
  C5 (fails when the body of a download breaks). The claim asks that every entry carry
  the stored value of its key and that a fetch that fails be recorded in the error
  field of its entry. With the two blobs listed and the body of the first download
  breaking after one byte, the read of the body reports an error, which \<^verbatim>\<open>Get\<close> drops:
  the entry of \<open>/a\<close> reaches the channel with the first byte of the two stored and
  with a nil error. The entry of \<open>/b\<close> is as the claim says.
\<close>

theorem Query_fetch_truncated:
  "Query (\<lambda>n. n) q_values [Inr page_a, Inr page_b] =
     Some [Go_fetch result_a ''/a'', Go_fetch result_b ''/b'', Wg_Wait, Close_results] \<and>
   lookup_blob s_broken (keyUrl d0 ''/a'') = Inr [104, 105] \<and>
   fst (Download (keyUrl d0 ''/a'') 0 0 s_broken) = Inr \<lparr>Body = [104, 105], Body_breaks = Some 1\<rparr> \<and>
   ReadFrom \<lparr>Body = [104, 105], Body_breaks = Some 1\<rparr> = ([104], Some (ErrorString ''unexpected EOF'')) \<and>
   fst (Get d0 ''/a'' s_broken) = (Some [104], None) \<and>
   delivered d0 s_broken
     [Go_fetch result_a ''/a'', Go_fetch result_b ''/b'', Wg_Wait, Close_results] =
   [\<lparr>Entry = \<lparr>Key = ''/a'', Value = Some [104], Size = 2\<rparr>, Error = None\<rparr>,
    \<lparr>Entry = \<lparr>Key = ''/b'', Value = Some [119], Size = 1\<rparr>, Error = None\<rparr>]"
  by (simp add: Query_def q_values_def page_a_def page_b_def NotDone_def fetch_def Get_def
      Download_def ReadFrom_def lookup_blob_def keyUrl_def d0_def curl0_def s_broken_def
      result_a_def result_b_def Let_def)

lemma closes_joined_prefix:
  "Close_results \<notin> set pre \<Longrightarrow> closes_joined n (pre @ [Wg_Wait, Close_results])"
proof (induction pre arbitrary: n)
  case Nil
  then show ?case by simp
next
  case (Cons a pre)
  then show ?case by (cases a) simp_all
qed

lemma count_close_prefix:
  "Close_results \<notin> set pre \<Longrightarrow> count_list (pre @ [Wg_Wait, Close_results]) Close_results = 1"
  by (induction pre) auto

lemma for_marker_shape:
  "for_marker NewKey q marker replies = Some acts \<Longrightarrow> Nil_dereference \<notin> set acts \<Longrightarrow>
   \<exists>pre. acts = pre @ [Wg_Wait, Close_results] \<and> Close_results \<notin> set pre"
proof (induction replies arbitrary: marker acts)
  case Nil
  then show ?case by (auto split: if_splits)
next
  case (Cons reply rest)
  show ?case
  proof (cases "NotDone marker")
    case False
    with Cons.prems show ?thesis by auto
  next
    case True
    show ?thesis
    proof (cases reply)
      case (Inl err)
      with True Cons.prems show ?thesis by auto
    next
      case (Inr list)
      obtain pacts ok where r: "range_BlobItems NewKey q (Segment_BlobItems list) = (pacts, ok)"
        by (cases "range_BlobItems NewKey q (Segment_BlobItems list)")
      have nc: "Close_results \<notin> set pacts"
        using range_BlobItems_no_close [OF r] by simp
      have okeq: "ok = (Nil_dereference \<notin> set pacts)"
        using range_BlobItems_ok [OF r] .
      show ?thesis
      proof (cases ok)
        case False
        with True Inr r Cons.prems okeq show ?thesis by auto
      next
        case ok: True
        with True Inr r Cons.prems obtain tl where
          tl: "for_marker NewKey q (NextMarker list) rest = Some tl" and acts: "acts = pacts @ tl"
          by auto
        from acts Cons.prems(2) have "Nil_dereference \<notin> set tl" by simp
        from Cons.IH [OF tl this] obtain pre where
          "tl = pre @ [Wg_Wait, Close_results]" "Close_results \<notin> set pre" by blast
        with acts nc have "acts = (pacts @ pre) @ [Wg_Wait, Close_results] \<and>
            Close_results \<notin> set (pacts @ pre)" by simp
        then show ?thesis by blast
      qed
    qed
  qed
qed

text \<open>A listing that runs to its end closes the channel once, after the join.\<close>

lemma Query_close_joined:
  assumes "Query NewKey q replies = Some acts" and "Nil_dereference \<notin> set acts"
  shows "closes_joined 0 acts \<and> count_list acts Close_results = 1"
proof -
  from assms obtain pre where "acts = pre @ [Wg_Wait, Close_results]" "Close_results \<notin> set pre"
    using for_marker_shape [of NewKey q None replies acts] by (auto simp add: Query_def)
  then show ?thesis
    using closes_joined_prefix [of pre 0] count_close_prefix [of pre] by simp
qed

text \<open>
  C4 (fails when a list request fails). The claim asks that the channel be closed once
  and only after every launched fetch has finished, also when a list request returns
  an error. With a first page that launches a fetch and a second list request that
  fails, the goroutine logs, closes the channel with the task still pending (there is
  no \<^verbatim>\<open>wg.Wait()\<close> before that close and no return after it) and goes on to
  \<^verbatim>\<open>list.Segment\<close> of the nil response.
\<close>

theorem Query_close_unjoined:
  "Query (\<lambda>n. n) q_values [Inr page_a, Inl (ErrorString ''timeout'')] =
     Some [Go_fetch result_a ''/a'', Log_Errorf, Close_results, Nil_dereference] \<and>
   \<not> closes_joined 0 [Go_fetch result_a ''/a'', Log_Errorf, Close_results, Nil_dereference]"
  by (simp add: Query_def q_values_def page_a_def result_a_def NotDone_def Let_def)

end
